theory Spec2Isabelle
  imports Complex_Main "HOL-Library.Word"
begin

section \<open>Geo point distance searcher (search\_geopointdistance.go)\<close>

text \<open>
  A shallow embedding of the three functions of the file:
  \<^verbatim>\<open>NewGeoPointDistanceSearcher\<close>, \<^verbatim>\<open>boxSearcher\<close> and \<^verbatim>\<open>buildDistFilter\<close>.
  The functions of other packages that they call (the geo and numeric helpers, the
  searcher constructors, the index reader) are parameters of the model: the pure ones
  are fields of the record \<open>numericGeo\<close>, the ones with effects are oracles in the record
  \<open>collaborators\<close>, whose outcome may depend on every call made before.
\<close>

subsection \<open>Values\<close>

type_synonym byte = "8 word"

text \<open>A Go \<^verbatim>\<open>error\<close> value that is not nil.\<close>

datatype error = Error string

text \<open>
  A \<^verbatim>\<open>float64\<close>: a finite value (both zeros are \<open>Finite 0\<close>), an infinity or NaN.
  Only the comparisons of the language are defined here; a comparison with NaN is false.
  Every finite binary64 value is a real number, so a statement about all values of this
  type covers all values of the source's type.
\<close>

datatype float64 = Finite real | PosInf | NegInf | NaN

fun flt :: "float64 \<Rightarrow> float64 \<Rightarrow> bool" where
  "flt NaN y = False"
| "flt x NaN = False"
| "flt (Finite x) (Finite y) = (x < y)"
| "flt (Finite x) PosInf = True"
| "flt (Finite x) NegInf = False"
| "flt PosInf y = False"
| "flt NegInf NegInf = False"
| "flt NegInf y = True"

definition fle :: "float64 \<Rightarrow> float64 \<Rightarrow> bool" where
  "fle x y = (x \<noteq> NaN \<and> y \<noteq> NaN \<and> \<not> flt y x)"

text \<open>
  Interface values whose implementation is outside the file are handles: only their
  identity matters to the code, which passes them on.
\<close>

datatype reader = Reader nat

datatype scorer = Scorer nat

datatype searcherOptions = SearcherOptions nat

text \<open>
  \<open>CompositeSumScorer\<close> is the value of \<^verbatim>\<open>similarity.NewCompositeSumScorer()\<close>, the
  composite scorer that sums the scores of the sub-searchers.
\<close>

datatype compositeScorer = CompositeSumScorer | CompositeScorer nat

text \<open>\<^verbatim>\<open>search.DocumentMatch\<close>: the code reads the field \<^verbatim>\<open>Number\<close> (a uint64) only.\<close>

record documentMatch =
  Number :: "64 word"

type_synonym filterFunc = "documentMatch \<Rightarrow> bool"

text \<open>
  Modelled from the spec: the filtering searcher wrapper of another file of the package,
  \<^verbatim>\<open>NewFilteringSearcher(s, filter)\<close>, which allocates nothing, cannot fail, and holds
  the searcher it decorates and the predicate. A \<^verbatim>\<open>search.Searcher\<close> is either a
  handle returned by a constructor of another file, or this wrapper.
\<close>

datatype searcher = Searcher nat | FilteringSearcher searcher filterFunc

text \<open>
  A \<^verbatim>\<open>segment.DocumentValueReader\<close>. One call of its method \<^verbatim>\<open>VisitDocumentValues\<close> for a
  document number calls the visitor on a finite sequence of (field, term) pairs and then
  returns an error or nil; the error may come after some terms were visited.
\<close>

record dvReader =
  docValues :: "64 word \<Rightarrow> (string \<times> byte list) list"
  visitError :: "64 word \<Rightarrow> error option"

text \<open>
  Modelled from the spec: the method \<^verbatim>\<open>VisitDocumentValues\<close> of the external value
  reader, a single pass of the callback over the stored (field, term) pairs of the
  document, followed by the error of the visitation.
\<close>

definition VisitDocumentValues ::
  "dvReader \<Rightarrow> 64 word \<Rightarrow> (string \<Rightarrow> byte list \<Rightarrow> 's \<Rightarrow> 's) \<Rightarrow> 's \<Rightarrow> error option \<times> 's" where
  "VisitDocumentValues r n visitor st =
     (visitError r n, fold (\<lambda>(field, term). visitor field term) (docValues r n) st)"

subsection \<open>Pure functions of the packages numeric and geo\<close>

text \<open>
  \<open>Shift\<close> and \<open>Int64\<close> are the methods of \<^verbatim>\<open>numeric.PrefixCoded\<close> (the shift is a
  \<^verbatim>\<open>uint\<close> that the code only compares with 0; the \<^verbatim>\<open>int64\<close> is converted to
  \<^verbatim>\<open>uint64\<close>, which keeps its 64 bits). \<open>fdiv\<close> is the division of two \<^verbatim>\<open>float64\<close>
  values, whose rounding is not modelled.
\<close>

record numericGeo =
  RectFromPointDistance ::
    "float64 \<Rightarrow> float64 \<Rightarrow> float64 \<Rightarrow> error + (float64 \<times> float64 \<times> float64 \<times> float64)"
  Shift :: "byte list \<Rightarrow> error + nat"
  Int64 :: "byte list \<Rightarrow> error + 64 word"
  MortonUnhashLon :: "64 word \<Rightarrow> float64"
  MortonUnhashLat :: "64 word \<Rightarrow> float64"
  Haversin :: "float64 \<Rightarrow> float64 \<Rightarrow> float64 \<Rightarrow> float64 \<Rightarrow> float64"
  fdiv :: "float64 \<Rightarrow> float64 \<Rightarrow> float64"

subsection \<open>buildDistFilter\<close>

text \<open>The variables \<^verbatim>\<open>lons\<close>, \<^verbatim>\<open>lats\<close> and \<^verbatim>\<open>found\<close> that the visitor closure updates.\<close>

record visitState =
  lons :: "float64 list"
  lats :: "float64 list"
  found :: bool

definition visitor :: "numericGeo \<Rightarrow> string \<Rightarrow> byte list \<Rightarrow> visitState \<Rightarrow> visitState" where
  "visitor G field term st =
     (case Shift G term of
        Inl err \<Rightarrow> st
      | Inr shift \<Rightarrow>
          if shift = 0 then
            (case Int64 G term of
               Inl err \<Rightarrow> st
             | Inr i64 \<Rightarrow>
                 st\<lparr>lons := lons st @ [MortonUnhashLon G i64],
                    lats := lats st @ [MortonUnhashLat G i64],
                    found := True\<rparr>)
          else st)"

text \<open>
  The loop \<^verbatim>\<open>for i := range lons\<close> over the indices still to visit: it returns true at
  the first index whose point is within range, false when the indices are exhausted.
\<close>

fun distLoop ::
  "numericGeo \<Rightarrow> float64 list \<Rightarrow> float64 list \<Rightarrow> float64 \<Rightarrow> float64 \<Rightarrow> float64 \<Rightarrow> nat list \<Rightarrow> bool" where
  "distLoop G xs ys centerLon centerLat maxDist [] = False"
| "distLoop G xs ys centerLon centerLat maxDist (i # is) =
     (let dist = Haversin G (xs ! i) (ys ! i) centerLon centerLat in
      if fle dist (fdiv G maxDist (Finite 1000)) then True
      else distLoop G xs ys centerLon centerLat maxDist is)"

definition buildDistFilter ::
  "numericGeo \<Rightarrow> dvReader \<Rightarrow> float64 \<Rightarrow> float64 \<Rightarrow> float64 \<Rightarrow> filterFunc" where
  "buildDistFilter G r centerLon centerLat maxDist = (\<lambda>d.
     (case VisitDocumentValues r (Number d) (visitor G) \<lparr>lons = [], lats = [], found = False\<rparr> of
        (err, st) \<Rightarrow>
          if err = None \<and> found st then
            distLoop G (lons st) (lats st) centerLon centerLat maxDist [0..<length (lons st)]
          else False))"

subsection \<open>Calls with effects and their trace\<close>

text \<open>
  The arguments of one call of \<^verbatim>\<open>NewGeoBoundingBoxSearcher\<close>, in the order of the call:
  the index reader, four coordinates (in the callee's terms the minimum longitude, the
  minimum latitude, the maximum longitude and the maximum latitude), the field, the
  boost, the two scorers, the options, \<^verbatim>\<open>checkBoundaries\<close> and \<^verbatim>\<open>precisionStep\<close> (a
  \<^verbatim>\<open>uint\<close> that is passed on unchanged).
\<close>

datatype bboxArgs =
  BBoxArgs (bbIndexReader: reader)
    (bbMinLon: float64) (bbMinLat: float64) (bbMaxLon: float64) (bbMaxLat: float64)
    (bbField: string) (bbBoost: float64) (bbScorer: scorer) (bbCompScorer: compositeScorer)
    (bbOptions: searcherOptions) (bbCheckBoundaries: bool) (bbPrecisionStep: nat)

text \<open>
  The arguments of one call of \<^verbatim>\<open>NewDisjunctionSearcher\<close>, in the order of the call: the
  index reader, the sub-searchers, the minimum-match count, the composite scorer and the
  options.
\<close>

datatype disjArgs =
  DisjArgs (djIndexReader: reader) (djSearchers: "searcher list") (djMin: int)
    (djCompScorer: compositeScorer) (djOptions: searcherOptions)

text \<open>One call with effects made by the code, with what it returned.\<close>

datatype event =
    CallNewGeoBoundingBoxSearcher bboxArgs "error + searcher"
  | CallNewDisjunctionSearcher disjArgs "error + searcher"
  | CallClose searcher "error option"
  | CallDocumentValueReader reader "string list" "error + dvReader"

text \<open>
  The collaborators: what each call returns, given the calls made so far. A constructor
  returns an error or a searcher; \<^verbatim>\<open>Close\<close> returns an error or nil.
\<close>

record collaborators =
  NewGeoBoundingBoxSearcher :: "event list \<Rightarrow> bboxArgs \<Rightarrow> error + searcher"
  NewDisjunctionSearcher :: "event list \<Rightarrow> disjArgs \<Rightarrow> error + searcher"
  Close :: "event list \<Rightarrow> searcher \<Rightarrow> error option"
  DocumentValueReader :: "event list \<Rightarrow> reader \<Rightarrow> string list \<Rightarrow> error + dvReader"

definition callNewGeoBoundingBoxSearcher ::
  "collaborators \<Rightarrow> bboxArgs \<Rightarrow> event list \<Rightarrow> (error + searcher) \<times> event list" where
  "callNewGeoBoundingBoxSearcher C a t =
     (NewGeoBoundingBoxSearcher C t a,
      t @ [CallNewGeoBoundingBoxSearcher a (NewGeoBoundingBoxSearcher C t a)])"

definition callNewDisjunctionSearcher ::
  "collaborators \<Rightarrow> disjArgs \<Rightarrow> event list \<Rightarrow> (error + searcher) \<times> event list" where
  "callNewDisjunctionSearcher C a t =
     (NewDisjunctionSearcher C t a,
      t @ [CallNewDisjunctionSearcher a (NewDisjunctionSearcher C t a)])"

definition callClose ::
  "collaborators \<Rightarrow> searcher \<Rightarrow> event list \<Rightarrow> error option \<times> event list" where
  "callClose C s t = (Close C t s, t @ [CallClose s (Close C t s)])"

definition callDocumentValueReader ::
  "collaborators \<Rightarrow> reader \<Rightarrow> string list \<Rightarrow> event list \<Rightarrow> (error + dvReader) \<times> event list" where
  "callDocumentValueReader C r fieldNames t =
     (DocumentValueReader C t r fieldNames,
      t @ [CallDocumentValueReader r fieldNames (DocumentValueReader C t r fieldNames)])"

subsection \<open>boxSearcher\<close>

definition boxSearcher ::
  "collaborators \<Rightarrow> reader \<Rightarrow> float64 \<Rightarrow> float64 \<Rightarrow> float64 \<Rightarrow> float64 \<Rightarrow> string \<Rightarrow> float64 \<Rightarrow>
   scorer \<Rightarrow> compositeScorer \<Rightarrow> searcherOptions \<Rightarrow> bool \<Rightarrow> nat \<Rightarrow> event list \<Rightarrow>
   (error + searcher) \<times> event list" where
  "boxSearcher C indexReader topLeftLon topLeftLat bottomRightLon bottomRightLat
     field boost scorer compScorer options checkBoundaries precisionStep t =
   (if flt bottomRightLon topLeftLon then
      (case callNewGeoBoundingBoxSearcher C
              (BBoxArgs indexReader
                 (Finite (- 180)) bottomRightLat bottomRightLon topLeftLat
                 field boost scorer compScorer options checkBoundaries precisionStep) t of
         (Inl err, t1) \<Rightarrow> (Inl err, t1)
       | (Inr leftSearcher, t1) \<Rightarrow>
           (case callNewGeoBoundingBoxSearcher C
                   (BBoxArgs indexReader
                      topLeftLon bottomRightLat (Finite 180) topLeftLat
                      field boost scorer compScorer options
                      checkBoundaries precisionStep) t1 of
              (Inl err, t2) \<Rightarrow>
                (case callClose C leftSearcher t2 of
                   (ignored, t3) \<Rightarrow> (Inl err, t3))
            | (Inr rightSearcher, t2) \<Rightarrow>
                (case callNewDisjunctionSearcher C
                        (DisjArgs indexReader [leftSearcher, rightSearcher] 0
                           CompositeSumScorer options) t2 of
                   (Inl err, t3) \<Rightarrow>
                     (case callClose C leftSearcher t3 of
                        (ignored, t4) \<Rightarrow>
                          (case callClose C rightSearcher t4 of
                             (ignored', t5) \<Rightarrow> (Inl err, t5)))
                 | (Inr boxSearcher', t3) \<Rightarrow> (Inr boxSearcher', t3))))
    else
      (case callNewGeoBoundingBoxSearcher C
              (BBoxArgs indexReader
                 topLeftLon bottomRightLat bottomRightLon topLeftLat
                 field boost scorer compScorer options checkBoundaries precisionStep) t of
         (Inl err, t1) \<Rightarrow> (Inl err, t1)
       | (Inr boxSearcher', t1) \<Rightarrow> (Inr boxSearcher', t1)))"

subsection \<open>NewGeoPointDistanceSearcher\<close>

text \<open>The parameter \<^verbatim>\<open>dist\<close> of the source is written \<open>dist'\<close>.\<close>

definition NewGeoPointDistanceSearcher ::
  "numericGeo \<Rightarrow> collaborators \<Rightarrow> reader \<Rightarrow> float64 \<Rightarrow> float64 \<Rightarrow> float64 \<Rightarrow> string \<Rightarrow> float64 \<Rightarrow>
   scorer \<Rightarrow> compositeScorer \<Rightarrow> searcherOptions \<Rightarrow> nat \<Rightarrow> event list \<Rightarrow>
   (error + searcher) \<times> event list" where
  "NewGeoPointDistanceSearcher G C indexReader centerLon centerLat dist' field boost
     scorer compScorer options precisionStep t =
   (case RectFromPointDistance G centerLon centerLat dist' of
      Inl err \<Rightarrow> (Inl err, t)
    | Inr (topLeftLon, topLeftLat, bottomRightLon, bottomRightLat) \<Rightarrow>
        (case boxSearcher C indexReader topLeftLon topLeftLat bottomRightLon bottomRightLat
                field boost scorer compScorer options False precisionStep t of
           (Inl err, t1) \<Rightarrow> (Inl err, t1)
         | (Inr boxSearcher', t1) \<Rightarrow>
             (case callDocumentValueReader C indexReader [field] t1 of
                (Inl err, t2) \<Rightarrow> (Inl err, t2)
              | (Inr dvReader', t2) \<Rightarrow>
                  (Inr (FilteringSearcher boxSearcher'
                          (buildDistFilter G dvReader' centerLon centerLat dist')), t2))))"

subsection \<open>Observations on a trace\<close>

text \<open>The argument records of the bounding-box constructor calls of a trace, in order.\<close>

fun bboxCalls :: "event list \<Rightarrow> bboxArgs list" where
  "bboxCalls [] = []"
| "bboxCalls (CallNewGeoBoundingBoxSearcher a r # es) = a # bboxCalls es"
| "bboxCalls (e # es) = bboxCalls es"

text \<open>The argument records of the disjunction constructor calls of a trace, in order.\<close>

fun disjCalls :: "event list \<Rightarrow> disjArgs list" where
  "disjCalls [] = []"
| "disjCalls (CallNewDisjunctionSearcher a r # es) = a # disjCalls es"
| "disjCalls (e # es) = disjCalls es"

text \<open>The searchers on which \<^verbatim>\<open>Close\<close> was called, in order.\<close>

fun closed :: "event list \<Rightarrow> searcher list" where
  "closed [] = []"
| "closed (CallClose s r # es) = s # closed es"
| "closed (e # es) = closed es"

text \<open>The number of calls of \<^verbatim>\<open>DocumentValueReader\<close> in a trace.\<close>

fun dvReaderCalls :: "event list \<Rightarrow> nat" where
  "dvReaderCalls [] = 0"
| "dvReaderCalls (CallDocumentValueReader r fs res # es) = Suc (dvReaderCalls es)"
| "dvReaderCalls (e # es) = dvReaderCalls es"

subsection \<open>Auxiliary notions for the statements\<close>

text \<open>
  The point that a stored term contributes, if any: the term must have a shift that
  decodes to 0 and a 64-bit integer that decodes.
\<close>

definition point :: "numericGeo \<Rightarrow> byte list \<Rightarrow> (float64 \<times> float64) option" where
  "point G term =
     (case Shift G term of
        Inl err \<Rightarrow> None
      | Inr shift \<Rightarrow>
          if shift = 0 then
            (case Int64 G term of
               Inl err \<Rightarrow> None
             | Inr i64 \<Rightarrow> Some (MortonUnhashLon G i64, MortonUnhashLat G i64))
          else None)"

definition points :: "numericGeo \<Rightarrow> (string \<times> byte list) list \<Rightarrow> (float64 \<times> float64) list" where
  "points G ts = List.map_filter (\<lambda>(field, term). point G term) ts"

text \<open>A term whose shift decodes to a value greater than 0.\<close>

definition coarse :: "numericGeo \<Rightarrow> byte list \<Rightarrow> bool" where
  "coarse G term = (case Shift G term of Inl err \<Rightarrow> False | Inr shift \<Rightarrow> 0 < shift)"

text \<open>
  A term whose shift does not decode, or whose shift is 0 and whose 64-bit integer does
  not decode.
\<close>

definition undecodable :: "numericGeo \<Rightarrow> byte list \<Rightarrow> bool" where
  "undecodable G term =
     (case Shift G term of
        Inl err \<Rightarrow> True
      | Inr shift \<Rightarrow> shift = 0 \<and> (case Int64 G term of Inl err \<Rightarrow> True | Inr i64 \<Rightarrow> False))"

text \<open>A constructor call that returned an error; a call of \<^verbatim>\<open>Close\<close>.\<close>

fun failed :: "event \<Rightarrow> bool" where
  "failed (CallNewGeoBoundingBoxSearcher a (Inl e)) = True"
| "failed (CallNewDisjunctionSearcher a (Inl e)) = True"
| "failed (CallDocumentValueReader r fs (Inl e)) = True"
| "failed ev = False"

fun isClose :: "event \<Rightarrow> bool" where
  "isClose (CallClose s r) = True"
| "isClose ev = False"

text \<open>
  No retry: once a constructor call has failed, every later call of the trace is a call
  of \<^verbatim>\<open>Close\<close>.
\<close>

fun noRetry :: "event list \<Rightarrow> bool" where
  "noRetry [] = True"
| "noRetry (ev # es) = ((if failed ev then list_all isClose es else True) \<and> noRetry es)"

text \<open>The error of a constructor call that failed.\<close>

fun failure :: "event \<Rightarrow> error option" where
  "failure (CallNewGeoBoundingBoxSearcher a (Inl e)) = Some e"
| "failure (CallNewDisjunctionSearcher a (Inl e)) = Some e"
| "failure (CallDocumentValueReader r fs (Inl e)) = Some e"
| "failure ev = None"

text \<open>The errors of the failed constructor calls of a trace, in order.\<close>

fun failures :: "event list \<Rightarrow> error list" where
  "failures [] = []"
| "failures (ev # es) = (case failure ev of None \<Rightarrow> failures es | Some e \<Rightarrow> e # failures es)"

text \<open>
  An event records what the collaborator returned for the call, given the calls made
  before it; a sequence of events does so from a given trace on.
\<close>

fun answers :: "collaborators \<Rightarrow> event list \<Rightarrow> event \<Rightarrow> bool" where
  "answers C t (CallNewGeoBoundingBoxSearcher a r) = (r = NewGeoBoundingBoxSearcher C t a)"
| "answers C t (CallNewDisjunctionSearcher a r) = (r = NewDisjunctionSearcher C t a)"
| "answers C t (CallClose s r) = (r = Close C t s)"
| "answers C t (CallDocumentValueReader rd fs r) = (r = DocumentValueReader C t rd fs)"

fun faithful :: "collaborators \<Rightarrow> event list \<Rightarrow> event list \<Rightarrow> bool" where
  "faithful C t [] = True"
| "faithful C t (ev # es) = (answers C t ev \<and> faithful C (t @ [ev]) es)"

subsection \<open>Example collaborators\<close>

text \<open>
  Stand-ins for the functions of the other packages, for evaluating the model on concrete
  inputs. The rectangle is the one of a circle around (179.9, 0), which crosses the
  antimeridian. A term is a shift byte followed by one value byte; the longitude of a
  value is the value, its latitude is 0, and the distance of two points is the difference
  of their longitudes.
\<close>

definition exampleGeo :: numericGeo where
  "exampleGeo =
     \<lparr>RectFromPointDistance =
        (\<lambda>lon lat d. Inr (Finite 179, Finite 1, Finite (- 179), Finite (- 1))),
      Shift =
        (\<lambda>p. case p of [] \<Rightarrow> Inl (Error ''invalid prefix coded value'')
                      | b # bs \<Rightarrow> Inr (unat b)),
      Int64 =
        (\<lambda>p. case p of [b, c] \<Rightarrow> Inr (ucast c)
                      | bs \<Rightarrow> Inl (Error ''invalid prefix coded value'')),
      MortonUnhashLon = (\<lambda>i. Finite (real (unat i))),
      MortonUnhashLat = (\<lambda>i. Finite 0),
      Haversin =
        (\<lambda>lon1 lat1 lon2 lat2.
           case (lon1, lon2) of (Finite x, Finite y) \<Rightarrow> Finite \<bar>x - y\<bar> | other \<Rightarrow> NaN),
      fdiv =
        (\<lambda>a b. case (a, b) of (Finite x, Finite y) \<Rightarrow> Finite (x / y) | other \<Rightarrow> NaN)\<rparr>"

text \<open>
  A value reader whose documents all store a point at longitude 3, a point at longitude
  90, a coarse term of shift 8, an empty term and a term of shift 0 without value byte.
\<close>

definition exampleReader :: dvReader where
  "exampleReader =
     \<lparr>docValues = (\<lambda>n. [(''loc'', [0, 3]), (''loc'', [0, 90]), (''loc'', [8, 3]),
                        (''loc'', []), (''loc'', [0])]),
      visitError = (\<lambda>n. None)\<rparr>"

text \<open>
  Collaborators that always succeed: a constructor returns a fresh handle (the number of
  calls made before it), \<^verbatim>\<open>Close\<close> returns nil.
\<close>

definition exampleCollaborators :: collaborators where
  "exampleCollaborators =
     \<lparr>NewGeoBoundingBoxSearcher = (\<lambda>t a. Inr (Searcher (length t))),
      NewDisjunctionSearcher = (\<lambda>t a. Inr (Searcher (length t))),
      Close = (\<lambda>t s. None),
      DocumentValueReader = (\<lambda>t r fs. Inr exampleReader)\<rparr>"

section \<open>Properties of the distance filter\<close>

lemma visitor_point:
  "visitor G field term st =
     (case point G term of
        None \<Rightarrow> st
      | Some p \<Rightarrow> st\<lparr>lons := lons st @ [fst p], lats := lats st @ [snd p], found := True\<rparr>)"
  by (simp add: visitor_def point_def split: sum.splits)

lemma points_Nil: "points G [] = []"
  by (simp add: points_def map_filter_simps)

lemma points_Cons:
  "points G ((field, term) # ts) =
     (case point G term of None \<Rightarrow> points G ts | Some p \<Rightarrow> p # points G ts)"
  by (simp add: points_def map_filter_simps split: option.splits)

text \<open>The visitation appends the points of the terms, in order, to both lists.\<close>

lemma fold_visitor:
  "fold (\<lambda>(field, term). visitor G field term) ts st =
     st\<lparr>lons := lons st @ map fst (points G ts),
        lats := lats st @ map snd (points G ts),
        found := (found st \<or> points G ts \<noteq> [])\<rparr>"
proof (induction ts arbitrary: st)
  case Nil
  show ?case by (simp add: points_Nil)
next
  case (Cons a ts)
  obtain fld trm where a: "a = (fld, trm)" by (cases a)
  have "fold (\<lambda>(field, term). visitor G field term) (a # ts) st =
        fold (\<lambda>(field, term). visitor G field term) ts (visitor G fld trm st)"
    by (simp add: a)
  also have "\<dots> = (visitor G fld trm st)
      \<lparr>lons := lons (visitor G fld trm st) @ map fst (points G ts),
       lats := lats (visitor G fld trm st) @ map snd (points G ts),
       found := (found (visitor G fld trm st) \<or> points G ts \<noteq> [])\<rparr>"
    by (rule Cons.IH)
  also have "\<dots> = st\<lparr>lons := lons st @ map fst (points G (a # ts)),
        lats := lats st @ map snd (points G (a # ts)),
        found := (found st \<or> points G (a # ts) \<noteq> [])\<rparr>"
    unfolding a visitor_point [of G fld trm st] points_Cons
    by (cases "point G trm") simp_all
  finally show ?case .
qed

text \<open>
  The two lists have the same length after every visitation, so the index \<open>i\<close> of the
  loop over \<open>lons\<close> is in range for \<open>lats\<close> as well.
\<close>

lemma visit_lengths:
  "VisitDocumentValues r n (visitor G) \<lparr>lons = [], lats = [], found = False\<rparr> = (err, st)
   \<Longrightarrow> length (lats st) = length (lons st)"
  by (auto simp: VisitDocumentValues_def fold_visitor)

lemma distLoop_ex:
  "distLoop G xs ys centerLon centerLat maxDist is =
     (\<exists>i \<in> set is. fle (Haversin G (xs ! i) (ys ! i) centerLon centerLat)
                       (fdiv G maxDist (Finite 1000)))"
  by (induction "is") (auto simp: Let_def)

lemma distLoop_points:
  "distLoop G (map fst ps) (map snd ps) centerLon centerLat maxDist [0..<length ps] =
     (\<exists>p \<in> set ps. fle (Haversin G (fst p) (snd p) centerLon centerLat)
                       (fdiv G maxDist (Finite 1000)))"
proof -
  have "(\<exists>i \<in> set [0..<length ps]. P (map fst ps ! i) (map snd ps ! i)) =
        (\<exists>p \<in> set ps. P (fst p) (snd p))"
    for P :: "float64 \<Rightarrow> float64 \<Rightarrow> bool"
  proof
    assume "\<exists>i \<in> set [0..<length ps]. P (map fst ps ! i) (map snd ps ! i)"
    then obtain i where "i < length ps" "P (fst (ps ! i)) (snd (ps ! i))" by auto
    then show "\<exists>p \<in> set ps. P (fst p) (snd p)" using nth_mem by blast
  next
    assume "\<exists>p \<in> set ps. P (fst p) (snd p)"
    then obtain i where "i < length ps" "P (fst (ps ! i)) (snd (ps ! i))"
      by (auto simp: in_set_conv_nth)
    then show "\<exists>i \<in> set [0..<length ps]. P (map fst ps ! i) (map snd ps ! i)" by auto
  qed
  then show ?thesis unfolding distLoop_ex .
qed

text \<open>The predicate in terms of the points of the visited terms.\<close>

lemma buildDistFilter_points:
  "buildDistFilter G r centerLon centerLat maxDist d =
     (visitError r (Number d) = None \<and>
      (\<exists>p \<in> set (points G (docValues r (Number d))).
         fle (Haversin G (fst p) (snd p) centerLon centerLat) (fdiv G maxDist (Finite 1000))))"
  using distLoop_points [of G "points G (docValues r (Number d))" centerLon centerLat maxDist]
  by (auto simp: buildDistFilter_def VisitDocumentValues_def fold_visitor)

lemma set_points:
  "p \<in> set (points G ts) \<longleftrightarrow>
     (\<exists>(field, term) \<in> set ts. \<exists>i64. Shift G term = Inr 0 \<and> Int64 G term = Inr i64 \<and>
         p = (MortonUnhashLon G i64, MortonUnhashLat G i64))"
  by (induction ts) (auto simp: points_Nil points_Cons point_def split: option.splits sum.splits if_splits)

lemma coarse_point: "coarse G term \<Longrightarrow> point G term = None"
  by (auto simp: coarse_def point_def split: sum.splits)

lemma undecodable_point: "undecodable G term \<Longrightarrow> point G term = None"
  by (auto simp: undecodable_def point_def split: sum.splits)

lemma points_filter:
  assumes "\<And>term. P term \<Longrightarrow> point G term = None"
  shows "points G (filter (\<lambda>(field, term). \<not> P term) ts) = points G ts"
proof (induction ts)
  case Nil
  show ?case by simp
next
  case (Cons a ts)
  obtain fld trm where a: "a = (fld, trm)" by (cases a)
  show ?case
  proof (cases "P trm")
    case True
    then show ?thesis using assms [of trm] by (simp add: a points_Cons Cons.IH)
  next
    case False
    then show ?thesis by (simp add: a points_Cons Cons.IH split: option.splits)
  qed
qed

text \<open>
  C2. When the visitation of the document succeeds, the predicate is true if and only if
  some visited term has shift 0 and decodes to a 64-bit integer whose point
  (\<open>MortonUnhashLon\<close>, \<open>MortonUnhashLat\<close>) has a haversine distance to the centre of at most
  \<open>maxDist / 1000\<close>. So it is false when no such term was decoded and when every decoded
  point is out of range.
\<close>

theorem buildDistFilter_existential:
  assumes "visitError r (Number d) = None"
  shows "buildDistFilter G r centerLon centerLat maxDist d =
     (\<exists>(field, term) \<in> set (docValues r (Number d)). \<exists>i64.
        Shift G term = Inr 0 \<and> Int64 G term = Inr i64 \<and>
        fle (Haversin G (MortonUnhashLon G i64) (MortonUnhashLat G i64) centerLon centerLat)
            (fdiv G maxDist (Finite 1000)))"
proof -
  let ?near = "\<lambda>lon lat. fle (Haversin G lon lat centerLon centerLat) (fdiv G maxDist (Finite 1000))"
  let ?ts = "docValues r (Number d)"
  have "(\<exists>p \<in> set (points G ?ts). ?near (fst p) (snd p)) =
        (\<exists>(field, term) \<in> set ?ts. \<exists>i64.
           Shift G term = Inr 0 \<and> Int64 G term = Inr i64 \<and>
           ?near (MortonUnhashLon G i64) (MortonUnhashLat G i64))"
  proof
    assume "\<exists>p \<in> set (points G ?ts). ?near (fst p) (snd p)"
    then obtain p where p: "p \<in> set (points G ?ts)" and near: "?near (fst p) (snd p)"
      by blast
    from p obtain fld trm i64 where "(fld, trm) \<in> set ?ts" "Shift G trm = Inr 0"
      "Int64 G trm = Inr i64" "p = (MortonUnhashLon G i64, MortonUnhashLat G i64)"
      unfolding set_points by blast
    with near show "\<exists>(field, term) \<in> set ?ts. \<exists>i64.
           Shift G term = Inr 0 \<and> Int64 G term = Inr i64 \<and>
           ?near (MortonUnhashLon G i64) (MortonUnhashLat G i64)"
      by force
  next
    assume "\<exists>(field, term) \<in> set ?ts. \<exists>i64.
           Shift G term = Inr 0 \<and> Int64 G term = Inr i64 \<and>
           ?near (MortonUnhashLon G i64) (MortonUnhashLat G i64)"
    then obtain fld trm i64 where in_ts: "(fld, trm) \<in> set ?ts"
      and dec: "Shift G trm = Inr 0" "Int64 G trm = Inr i64"
      and near: "?near (MortonUnhashLon G i64) (MortonUnhashLat G i64)"
      by blast
    from in_ts dec have "(MortonUnhashLon G i64, MortonUnhashLat G i64) \<in> set (points G ?ts)"
      unfolding set_points by blast
    with near show "\<exists>p \<in> set (points G ?ts). ?near (fst p) (snd p)"
      by force
  qed
  with assms show ?thesis
    unfolding buildDistFilter_points by simp
qed

theorem buildDistFilter_existential_witness:
  "visitError exampleReader (Number \<lparr>Number = 7\<rparr>) = None \<and>
   buildDistFilter exampleGeo exampleReader (Finite 0) (Finite 0) (Finite 5000) \<lparr>Number = 7\<rparr> \<and>
   \<not> buildDistFilter exampleGeo exampleReader (Finite 0) (Finite 0) (Finite 2000) \<lparr>Number = 7\<rparr>"
  using buildDistFilter_existential
          [where r = exampleReader and d = "\<lparr>Number = 7\<rparr>" and G = exampleGeo
             and centerLon = "Finite 0" and centerLat = "Finite 0" and maxDist = "Finite 5000"]
        buildDistFilter_existential
          [where r = exampleReader and d = "\<lparr>Number = 7\<rparr>" and G = exampleGeo
             and centerLon = "Finite 0" and centerLat = "Finite 0" and maxDist = "Finite 2000"]
  by (simp add: exampleGeo_def exampleReader_def fle_def)

text \<open>
  C4. When \<open>VisitDocumentValues\<close> returns an error for the document, the predicate is
  false, whatever terms were visited before the error. The predicate returns a boolean
  only, so the error goes no further.
\<close>

theorem buildDistFilter_visit_error:
  assumes "visitError r (Number d) = Some e"
  shows "\<not> buildDistFilter G r centerLon centerLat maxDist d"
  using assms by (simp add: buildDistFilter_points)

text \<open>
  The document of the example is accepted for a radius of 5000; with the same terms
  visited and an error returned at the end, it is rejected.
\<close>

theorem buildDistFilter_visit_error_witness:
  "visitError (exampleReader\<lparr>visitError := \<lambda>n. Some (Error ''read failed'')\<rparr>) (Number \<lparr>Number = 7\<rparr>)
     = Some (Error ''read failed'') \<and>
   points exampleGeo
     (docValues (exampleReader\<lparr>visitError := \<lambda>n. Some (Error ''read failed'')\<rparr>) 7)
     = [(Finite 3, Finite 0), (Finite 90, Finite 0)] \<and>
   \<not> buildDistFilter exampleGeo (exampleReader\<lparr>visitError := \<lambda>n. Some (Error ''read failed'')\<rparr>)
       (Finite 0) (Finite 0) (Finite 5000) \<lparr>Number = 7\<rparr>"
  using buildDistFilter_visit_error
          [where r = "exampleReader\<lparr>visitError := \<lambda>n. Some (Error ''read failed'')\<rparr>"
             and d = "\<lparr>Number = 7\<rparr>" and e = "Error ''read failed''" and G = exampleGeo
             and centerLon = "Finite 0" and centerLat = "Finite 0" and maxDist = "Finite 5000"]
  by (simp add: exampleGeo_def exampleReader_def points_def point_def map_filter_simps)

text \<open>
  C3. A term whose shift is greater than 0 leaves the variables of the visitor as they
  are: it is not decoded. Two documents whose visited sequences are equal once the terms
  of shift greater than 0 are removed, and whose visitations return the same error or
  both none, get the same result from the predicate.
\<close>

theorem buildDistFilter_ignores_coarse:
  assumes "filter (\<lambda>(field, term). \<not> coarse G term) (docValues r1 (Number d1)) =
           filter (\<lambda>(field, term). \<not> coarse G term) (docValues r2 (Number d2))"
    and "visitError r1 (Number d1) = visitError r2 (Number d2)"
  shows "(\<forall>field term st. coarse G term \<longrightarrow> visitor G field term st = st) \<and>
         buildDistFilter G r1 centerLon centerLat maxDist d1 =
         buildDistFilter G r2 centerLon centerLat maxDist d2"
proof
  show "\<forall>field term st. coarse G term \<longrightarrow> visitor G field term st = st"
    by (simp add: visitor_point coarse_point)
next
  have "points G (docValues r1 (Number d1)) =
        points G (filter (\<lambda>(field, term). \<not> coarse G term) (docValues r1 (Number d1)))"
    by (simp add: points_filter coarse_point)
  also have "\<dots> = points G (filter (\<lambda>(field, term). \<not> coarse G term) (docValues r2 (Number d2)))"
    by (simp only: assms(1))
  also have "\<dots> = points G (docValues r2 (Number d2))"
    by (simp add: points_filter coarse_point)
  finally show "buildDistFilter G r1 centerLon centerLat maxDist d1 =
                buildDistFilter G r2 centerLon centerLat maxDist d2"
    by (simp add: buildDistFilter_points assms(2))
qed

text \<open>
  The document of the example and a document with its two points and two other coarse
  terms, whose value bytes would be in range if they were decoded.
\<close>

theorem buildDistFilter_ignores_coarse_witness:
  "filter (\<lambda>(field, term). \<not> coarse exampleGeo term) (docValues exampleReader (Number \<lparr>Number = 7\<rparr>)) =
   filter (\<lambda>(field, term). \<not> coarse exampleGeo term)
     (docValues (exampleReader\<lparr>docValues := \<lambda>n. [(''loc'', [4, 1]), (''loc'', [0, 3]), (''loc'', [0, 90]),
                                       (''loc'', []), (''loc'', [12, 0]), (''loc'', [0])]\<rparr>)
        (Number \<lparr>Number = 8\<rparr>)) \<and>
   coarse exampleGeo [4, 1] \<and>
   visitor exampleGeo ''loc'' [4, 1] \<lparr>lons = [], lats = [], found = False\<rparr>
     = \<lparr>lons = [], lats = [], found = False\<rparr> \<and>
   buildDistFilter exampleGeo exampleReader (Finite 0) (Finite 0) (Finite 2000) \<lparr>Number = 7\<rparr> =
   buildDistFilter exampleGeo
     (exampleReader\<lparr>docValues := \<lambda>n. [(''loc'', [4, 1]), (''loc'', [0, 3]), (''loc'', [0, 90]),
                                       (''loc'', []), (''loc'', [12, 0]), (''loc'', [0])]\<rparr>)
     (Finite 0) (Finite 0) (Finite 2000) \<lparr>Number = 8\<rparr>"
proof -
  let ?r2 = "exampleReader\<lparr>docValues := \<lambda>n. [(''loc'', [4, 1]), (''loc'', [0, 3]), (''loc'', [0, 90]),
                                       (''loc'', []), (''loc'', [12, 0]), (''loc'', [0])]\<rparr>"
  have h1: "filter (\<lambda>(field, term). \<not> coarse exampleGeo term) (docValues exampleReader (Number \<lparr>Number = 7\<rparr>)) =
            filter (\<lambda>(field, term). \<not> coarse exampleGeo term) (docValues ?r2 (Number \<lparr>Number = 8\<rparr>))"
    by (simp add: coarse_def exampleGeo_def exampleReader_def)
  have h2: "visitError exampleReader (Number \<lparr>Number = 7\<rparr>) = visitError ?r2 (Number \<lparr>Number = 8\<rparr>)"
    by (simp add: exampleReader_def)
  have c: "coarse exampleGeo [4, 1]"
    by (simp add: coarse_def exampleGeo_def)
  from buildDistFilter_ignores_coarse [OF h1 h2, of "Finite 0" "Finite 0" "Finite 2000"] h1 c
  show ?thesis by simp
qed

text \<open>
  C10. A term whose shift does not decode, or whose shift is 0 and whose 64-bit integer
  does not decode, leaves the variables of the visitor as they are. The result of the
  predicate on a document is its result on the document without these terms: they do
  not reject the document, the other terms decide.
\<close>

theorem buildDistFilter_skips_undecodable:
  "(\<forall>field term st. undecodable G term \<longrightarrow> visitor G field term st = st) \<and>
   buildDistFilter G r centerLon centerLat maxDist d =
   buildDistFilter G
     (r\<lparr>docValues := \<lambda>n. filter (\<lambda>(field, term). \<not> undecodable G term) (docValues r n)\<rparr>)
     centerLon centerLat maxDist d"
  by (simp add: visitor_point undecodable_point buildDistFilter_points points_filter)

text \<open>
  The document of the example has an empty term, whose shift does not decode, and a term
  of shift 0 without value; it is accepted for a radius of 5000, as the document with
  its other three terms is.
\<close>

theorem buildDistFilter_skips_undecodable_witness:
  "undecodable exampleGeo [] \<and> undecodable exampleGeo [0] \<and>
   visitor exampleGeo ''loc'' [] \<lparr>lons = [Finite 90], lats = [Finite 0], found = True\<rparr>
     = \<lparr>lons = [Finite 90], lats = [Finite 0], found = True\<rparr> \<and>
   visitor exampleGeo ''loc'' [0] \<lparr>lons = [Finite 90], lats = [Finite 0], found = True\<rparr>
     = \<lparr>lons = [Finite 90], lats = [Finite 0], found = True\<rparr> \<and>
   docValues exampleReader 7 =
     [(''loc'', [0, 3]), (''loc'', [0, 90]), (''loc'', [8, 3]), (''loc'', []), (''loc'', [0])] \<and>
   buildDistFilter exampleGeo exampleReader (Finite 0) (Finite 0) (Finite 5000) \<lparr>Number = 7\<rparr> \<and>
   buildDistFilter exampleGeo
     (exampleReader\<lparr>docValues := \<lambda>n. [(''loc'', [0, 3]), (''loc'', [0, 90]), (''loc'', [8, 3])]\<rparr>)
     (Finite 0) (Finite 0) (Finite 5000) \<lparr>Number = 7\<rparr>"
proof -
  have u: "undecodable exampleGeo []" "undecodable exampleGeo [0]"
    by (simp_all add: undecodable_def exampleGeo_def)
  have f: "(\<lambda>n. filter (\<lambda>(field, term). \<not> undecodable exampleGeo term) (docValues exampleReader n)) =
           (\<lambda>n. [(''loc'', [0, 3]), (''loc'', [0, 90]), (''loc'', [8, 3])])"
    by (simp add: undecodable_def exampleGeo_def exampleReader_def)
  have a: "buildDistFilter exampleGeo exampleReader (Finite 0) (Finite 0) (Finite 5000) \<lparr>Number = 7\<rparr>"
    by (simp add: buildDistFilter_def VisitDocumentValues_def visitor_def exampleGeo_def
          exampleReader_def fle_def)
  have v: "docValues exampleReader 7 =
     [(''loc'', [0, 3]), (''loc'', [0, 90]), (''loc'', [8, 3]), (''loc'', []), (''loc'', [0])]"
    by (simp add: exampleReader_def)
  from buildDistFilter_skips_undecodable
         [of exampleGeo exampleReader "Finite 0" "Finite 0" "Finite 5000" "\<lparr>Number = 7\<rparr>"]
  show ?thesis using u a v unfolding f by simp
qed

section \<open>Properties of the construction\<close>

lemma bboxCalls_append: "bboxCalls (xs @ ys) = bboxCalls xs @ bboxCalls ys"
  by (induction xs rule: bboxCalls.induct) simp_all

lemma noRetry_append:
  "\<not> list_ex failed xs \<Longrightarrow> noRetry (xs @ ys) = noRetry ys"
  by (induction xs) simp_all

lemmas call_defs =
  callNewGeoBoundingBoxSearcher_def callNewDisjunctionSearcher_def callClose_def
  callDocumentValueReader_def

text \<open>
  What every run of \<open>boxSearcher\<close> adds to the trace: bounding-box constructor calls
  that carry its \<open>checkBoundaries\<close>, no call after a failed constructor call other than
  \<open>Close\<close>, and no failed call at all when it returns a searcher.
\<close>

lemma boxSearcher_trace:
  assumes "boxSearcher C indexReader topLeftLon topLeftLat bottomRightLon bottomRightLat
             field boost scorer compScorer options checkBoundaries precisionStep t = (res, t')"
  shows "\<exists>new. t' = t @ new \<and>
           (\<forall>a \<in> set (bboxCalls new). bbCheckBoundaries a = checkBoundaries) \<and>
           noRetry new \<and> (\<forall>s. res = Inr s \<longrightarrow> \<not> list_ex failed new)"
  using assms
  by (auto simp: boxSearcher_def call_defs split: if_splits sum.splits)

text \<open>
  C8. When \<open>topLeftLon \<le> bottomRightLon\<close>, the run of \<open>boxSearcher\<close> is one call of the
  bounding-box constructor over (topLeftLon, bottomRightLat, bottomRightLon, topLeftLat):
  the result of \<open>boxSearcher\<close> is the result of that call, and the call is the only one
  added to the trace, so there is no second box and no disjunction.
\<close>

theorem boxSearcher_single:
  assumes "fle topLeftLon bottomRightLon"
    and "box = BBoxArgs indexReader topLeftLon bottomRightLat bottomRightLon topLeftLat
                 field boost scorer compScorer options checkBoundaries precisionStep"
  shows "boxSearcher C indexReader topLeftLon topLeftLat bottomRightLon bottomRightLat
           field boost scorer compScorer options checkBoundaries precisionStep t =
         (NewGeoBoundingBoxSearcher C t box,
          t @ [CallNewGeoBoundingBoxSearcher box (NewGeoBoundingBoxSearcher C t box)])"
  using assms
  by (simp add: boxSearcher_def fle_def call_defs split: sum.splits)

theorem boxSearcher_single_witness:
  "fle (Finite 10) (Finite 20) \<and>
   boxSearcher exampleCollaborators (Reader 0) (Finite 10) (Finite 1) (Finite 20) (Finite (- 1))
     ''loc'' (Finite 1) (Scorer 0) (CompositeScorer 0) (SearcherOptions 0) True 4 [] =
   (Inr (Searcher 0),
    [CallNewGeoBoundingBoxSearcher
       (BBoxArgs (Reader 0) (Finite 10) (Finite (- 1)) (Finite 20) (Finite 1)
          ''loc'' (Finite 1) (Scorer 0) (CompositeScorer 0) (SearcherOptions 0) True 4)
       (Inr (Searcher 0))])"
proof -
  have h: "fle (Finite 10) (Finite 20)" by (simp add: fle_def)
  from boxSearcher_single [OF h refl, where C = exampleCollaborators and indexReader = "Reader 0"
      and topLeftLat = "Finite 1" and bottomRightLat = "Finite (- 1)" and field = "''loc''"
      and boost = "Finite 1" and scorer = "Scorer 0" and compScorer = "CompositeScorer 0"
      and options = "SearcherOptions 0" and checkBoundaries = True and precisionStep = 4
      and t = "[]"] h
  show ?thesis by (simp add: exampleCollaborators_def)
qed

text \<open>
  C1. When \<open>bottomRightLon < topLeftLon\<close> and the constructors succeed, the run of
  \<open>boxSearcher\<close> is three calls: the bounding-box constructor over
  (-180, bottomRightLat, bottomRightLon, topLeftLat), the bounding-box constructor over
  (topLeftLon, bottomRightLat, 180, topLeftLat), and the disjunction constructor on the
  two searchers returned, with minimum 0 and the composite sum scorer. The result is the
  searcher that the disjunction constructor returned. (C6 states the runs in which a
  constructor fails.)
\<close>

theorem boxSearcher_dateline:
  assumes "flt bottomRightLon topLeftLon"
    and "left = BBoxArgs indexReader (Finite (- 180)) bottomRightLat bottomRightLon topLeftLat
                  field boost scorer compScorer options checkBoundaries precisionStep"
    and "right = BBoxArgs indexReader topLeftLon bottomRightLat (Finite 180) topLeftLat
                   field boost scorer compScorer options checkBoundaries precisionStep"
    and "both = DisjArgs indexReader [leftSearcher, rightSearcher] 0 CompositeSumScorer options"
    and "NewGeoBoundingBoxSearcher C t left = Inr leftSearcher"
    and "NewGeoBoundingBoxSearcher C
           (t @ [CallNewGeoBoundingBoxSearcher left (Inr leftSearcher)]) right
         = Inr rightSearcher"
    and "NewDisjunctionSearcher C
           (t @ [CallNewGeoBoundingBoxSearcher left (Inr leftSearcher),
                 CallNewGeoBoundingBoxSearcher right (Inr rightSearcher)]) both
         = Inr s"
  shows "boxSearcher C indexReader topLeftLon topLeftLat bottomRightLon bottomRightLat
           field boost scorer compScorer options checkBoundaries precisionStep t =
         (Inr s,
          t @ [CallNewGeoBoundingBoxSearcher left (Inr leftSearcher),
               CallNewGeoBoundingBoxSearcher right (Inr rightSearcher),
               CallNewDisjunctionSearcher both (Inr s)])"
  using assms by (simp add: boxSearcher_def call_defs)

theorem boxSearcher_dateline_witness:
  "flt (Finite (- 179)) (Finite 179) \<and>
   boxSearcher exampleCollaborators (Reader 0) (Finite 179) (Finite 1) (Finite (- 179)) (Finite (- 1))
     ''loc'' (Finite 1) (Scorer 0) (CompositeScorer 0) (SearcherOptions 0) True 4 [] =
   (Inr (Searcher 2),
    [CallNewGeoBoundingBoxSearcher
       (BBoxArgs (Reader 0) (Finite (- 180)) (Finite (- 1)) (Finite (- 179)) (Finite 1)
          ''loc'' (Finite 1) (Scorer 0) (CompositeScorer 0) (SearcherOptions 0) True 4)
       (Inr (Searcher 0)),
     CallNewGeoBoundingBoxSearcher
       (BBoxArgs (Reader 0) (Finite 179) (Finite (- 1)) (Finite 180) (Finite 1)
          ''loc'' (Finite 1) (Scorer 0) (CompositeScorer 0) (SearcherOptions 0) True 4)
       (Inr (Searcher 1)),
     CallNewDisjunctionSearcher
       (DisjArgs (Reader 0) [Searcher 0, Searcher 1] 0 CompositeSumScorer (SearcherOptions 0))
       (Inr (Searcher 2))])"
proof -
  have h: "flt (Finite (- 179)) (Finite 179)" by simp
  from boxSearcher_dateline [OF h refl refl refl, where C = exampleCollaborators
      and indexReader = "Reader 0" and topLeftLat = "Finite 1" and bottomRightLat = "Finite (- 1)"
      and field = "''loc''" and boost = "Finite 1" and scorer = "Scorer 0"
      and compScorer = "CompositeScorer 0" and options = "SearcherOptions 0"
      and checkBoundaries = True and precisionStep = 4 and t = "[]"
      and leftSearcher = "Searcher 0" and rightSearcher = "Searcher 1" and s = "Searcher 2"] h
  show ?thesis by (simp add: exampleCollaborators_def)
qed

text \<open>
  C6. In the dateline path, after the left searcher was built: when the constructor of
  the right searcher fails, \<open>boxSearcher\<close> returns that error, and what it adds to the
  trace after the two constructor calls is one call of \<open>Close\<close>, on the left searcher.
  When the right searcher is built and the disjunction constructor fails, \<open>boxSearcher\<close>
  returns that error, and it closes the left and then the right searcher. What the calls
  of \<open>Close\<close> return (\<open>c\<close>, \<open>c1\<close>, \<open>c2\<close>) has no part in the result.
\<close>

theorem boxSearcher_cleanup:
  assumes "flt bottomRightLon topLeftLon"
    and "left = BBoxArgs indexReader (Finite (- 180)) bottomRightLat bottomRightLon topLeftLat
                  field boost scorer compScorer options checkBoundaries precisionStep"
    and "right = BBoxArgs indexReader topLeftLon bottomRightLat (Finite 180) topLeftLat
                   field boost scorer compScorer options checkBoundaries precisionStep"
    and "NewGeoBoundingBoxSearcher C t left = Inr leftSearcher"
    and "t1 = t @ [CallNewGeoBoundingBoxSearcher left (Inr leftSearcher)]"
    and "run = boxSearcher C indexReader topLeftLon topLeftLat bottomRightLon bottomRightLat
                 field boost scorer compScorer options checkBoundaries precisionStep t"
  shows "(NewGeoBoundingBoxSearcher C t1 right = Inl err \<longrightarrow>
            fst run = Inl err \<and>
            (\<exists>c. snd run = t1 @ [CallNewGeoBoundingBoxSearcher right (Inl err),
                                  CallClose leftSearcher c]) \<and>
            closed (drop (length t) (snd run)) = [leftSearcher]) \<and>
         (NewGeoBoundingBoxSearcher C t1 right = Inr rightSearcher \<and>
            both = DisjArgs indexReader [leftSearcher, rightSearcher] 0 CompositeSumScorer options \<and>
            NewDisjunctionSearcher C
              (t1 @ [CallNewGeoBoundingBoxSearcher right (Inr rightSearcher)]) both = Inl err' \<longrightarrow>
            fst run = Inl err' \<and>
            (\<exists>c1 c2. snd run = t1 @ [CallNewGeoBoundingBoxSearcher right (Inr rightSearcher),
                                      CallNewDisjunctionSearcher both (Inl err'),
                                      CallClose leftSearcher c1,
                                      CallClose rightSearcher c2]) \<and>
            closed (drop (length t) (snd run)) = [leftSearcher, rightSearcher])"
proof -
  have first: "run = (Inl err, t1 @ [CallNewGeoBoundingBoxSearcher right (Inl err),
      CallClose leftSearcher
        (Close C (t1 @ [CallNewGeoBoundingBoxSearcher right (Inl err)]) leftSearcher)])"
    if "NewGeoBoundingBoxSearcher C t1 right = Inl err"
    using assms that by (simp add: boxSearcher_def call_defs)
  have second: "run = (Inl err', t1 @ [CallNewGeoBoundingBoxSearcher right (Inr rightSearcher),
      CallNewDisjunctionSearcher both (Inl err'),
      CallClose leftSearcher
        (Close C (t1 @ [CallNewGeoBoundingBoxSearcher right (Inr rightSearcher),
                        CallNewDisjunctionSearcher both (Inl err')]) leftSearcher),
      CallClose rightSearcher
        (Close C (t1 @ [CallNewGeoBoundingBoxSearcher right (Inr rightSearcher),
                        CallNewDisjunctionSearcher both (Inl err'),
                        CallClose leftSearcher
                          (Close C (t1 @ [CallNewGeoBoundingBoxSearcher right (Inr rightSearcher),
                                          CallNewDisjunctionSearcher both (Inl err')])
                             leftSearcher)]) rightSearcher)])"
    if "NewGeoBoundingBoxSearcher C t1 right = Inr rightSearcher"
      and "both = DisjArgs indexReader [leftSearcher, rightSearcher] 0 CompositeSumScorer options"
      and "NewDisjunctionSearcher C
              (t1 @ [CallNewGeoBoundingBoxSearcher right (Inr rightSearcher)]) both = Inl err'"
    using assms that by (simp add: boxSearcher_def call_defs)
  show ?thesis
  proof (intro conjI impI)
    assume a: "NewGeoBoundingBoxSearcher C t1 right = Inl err"
    show "fst run = Inl err"
      by (simp add: first [OF a])
    show "\<exists>c. snd run = t1 @ [CallNewGeoBoundingBoxSearcher right (Inl err),
                                  CallClose leftSearcher c]"
      by (simp add: first [OF a])
    show "closed (drop (length t) (snd run)) = [leftSearcher]"
      by (simp add: first [OF a] assms(5))
  next
    assume b: "NewGeoBoundingBoxSearcher C t1 right = Inr rightSearcher \<and>
            both = DisjArgs indexReader [leftSearcher, rightSearcher] 0 CompositeSumScorer options \<and>
            NewDisjunctionSearcher C
              (t1 @ [CallNewGeoBoundingBoxSearcher right (Inr rightSearcher)]) both = Inl err'"
    then have run: "run = (Inl err', t1 @ [CallNewGeoBoundingBoxSearcher right (Inr rightSearcher),
      CallNewDisjunctionSearcher both (Inl err'),
      CallClose leftSearcher
        (Close C (t1 @ [CallNewGeoBoundingBoxSearcher right (Inr rightSearcher),
                        CallNewDisjunctionSearcher both (Inl err')]) leftSearcher),
      CallClose rightSearcher
        (Close C (t1 @ [CallNewGeoBoundingBoxSearcher right (Inr rightSearcher),
                        CallNewDisjunctionSearcher both (Inl err'),
                        CallClose leftSearcher
                          (Close C (t1 @ [CallNewGeoBoundingBoxSearcher right (Inr rightSearcher),
                                          CallNewDisjunctionSearcher both (Inl err')])
                             leftSearcher)]) rightSearcher)])"
      using second by blast
    show "fst run = Inl err'"
      by (simp add: run)
    show "\<exists>c1 c2. snd run = t1 @ [CallNewGeoBoundingBoxSearcher right (Inr rightSearcher),
                                      CallNewDisjunctionSearcher both (Inl err'),
                                      CallClose leftSearcher c1,
                                      CallClose rightSearcher c2]"
      by (simp add: run)
    show "closed (drop (length t) (snd run)) = [leftSearcher, rightSearcher]"
      by (simp add: run assms(5))
  qed
qed

text \<open>
  Two runs on the dateline rectangle of the example, with a \<open>Close\<close> that itself returns
  an error: in the first the second bounding-box constructor call fails, in the second
  the disjunction constructor fails.
\<close>

theorem boxSearcher_cleanup_witness:
  "flt (Finite (- 179)) (Finite 179) \<and>
   fst (boxSearcher
     (exampleCollaborators
        \<lparr>NewGeoBoundingBoxSearcher :=
           \<lambda>t a. if t = [] then Inr (Searcher 0) else Inl (Error ''no right box''),
         Close := \<lambda>t s. Some (Error ''close failed'')\<rparr>)
     (Reader 0) (Finite 179) (Finite 1) (Finite (- 179)) (Finite (- 1))
     ''loc'' (Finite 1) (Scorer 0) (CompositeScorer 0) (SearcherOptions 0) True 4 []) =
   Inl (Error ''no right box'') \<and>
   closed (snd (boxSearcher
     (exampleCollaborators
        \<lparr>NewGeoBoundingBoxSearcher :=
           \<lambda>t a. if t = [] then Inr (Searcher 0) else Inl (Error ''no right box''),
         Close := \<lambda>t s. Some (Error ''close failed'')\<rparr>)
     (Reader 0) (Finite 179) (Finite 1) (Finite (- 179)) (Finite (- 1))
     ''loc'' (Finite 1) (Scorer 0) (CompositeScorer 0) (SearcherOptions 0) True 4 [])) =
   [Searcher 0] \<and>
   fst (boxSearcher
     (exampleCollaborators
        \<lparr>NewDisjunctionSearcher := \<lambda>t a. Inl (Error ''no disjunction''),
         Close := \<lambda>t s. Some (Error ''close failed'')\<rparr>)
     (Reader 0) (Finite 179) (Finite 1) (Finite (- 179)) (Finite (- 1))
     ''loc'' (Finite 1) (Scorer 0) (CompositeScorer 0) (SearcherOptions 0) True 4 []) =
   Inl (Error ''no disjunction'') \<and>
   closed (snd (boxSearcher
     (exampleCollaborators
        \<lparr>NewDisjunctionSearcher := \<lambda>t a. Inl (Error ''no disjunction''),
         Close := \<lambda>t s. Some (Error ''close failed'')\<rparr>)
     (Reader 0) (Finite 179) (Finite 1) (Finite (- 179)) (Finite (- 1))
     ''loc'' (Finite 1) (Scorer 0) (CompositeScorer 0) (SearcherOptions 0) True 4 [])) =
   [Searcher 0, Searcher 1]"
proof -
  let ?C1 = "exampleCollaborators
        \<lparr>NewGeoBoundingBoxSearcher :=
           \<lambda>t a. if t = [] then Inr (Searcher 0) else Inl (Error ''no right box''),
         Close := \<lambda>t s. Some (Error ''close failed'')\<rparr>"
  let ?C2 = "exampleCollaborators
        \<lparr>NewDisjunctionSearcher := \<lambda>t a. Inl (Error ''no disjunction''),
         Close := \<lambda>t s. Some (Error ''close failed'')\<rparr>"
  have h: "flt (Finite (- 179)) (Finite 179)" by simp
  have l1: "NewGeoBoundingBoxSearcher ?C1 [] a = Inr (Searcher 0)" for a
    by simp
  have l2: "NewGeoBoundingBoxSearcher ?C2 [] a = Inr (Searcher 0)" for a
    by (simp add: exampleCollaborators_def)
  note first = boxSearcher_cleanup [OF h refl refl l1 refl refl, where indexReader = "Reader 0"
      and topLeftLat = "Finite 1" and bottomRightLat = "Finite (- 1)"
      and field = "''loc''" and boost = "Finite 1" and scorer = "Scorer 0"
      and compScorer = "CompositeScorer 0" and options = "SearcherOptions 0"
      and checkBoundaries = True and precisionStep = 4 and err = "Error ''no right box''",
      THEN conjunct1]
  note second = boxSearcher_cleanup [OF h refl refl l2 refl refl, where indexReader = "Reader 0"
      and topLeftLat = "Finite 1" and bottomRightLat = "Finite (- 1)"
      and field = "''loc''" and boost = "Finite 1" and scorer = "Scorer 0"
      and compScorer = "CompositeScorer 0" and options = "SearcherOptions 0"
      and checkBoundaries = True and precisionStep = 4 and rightSearcher = "Searcher 1"
      and both = "DisjArgs (Reader 0) [Searcher 0, Searcher 1] 0 CompositeSumScorer
                    (SearcherOptions 0)"
      and err' = "Error ''no disjunction''", THEN conjunct2]
  from first have a: "fst (boxSearcher ?C1
     (Reader 0) (Finite 179) (Finite 1) (Finite (- 179)) (Finite (- 1))
     ''loc'' (Finite 1) (Scorer 0) (CompositeScorer 0) (SearcherOptions 0) True 4 []) =
   Inl (Error ''no right box'') \<and>
   closed (snd (boxSearcher ?C1
     (Reader 0) (Finite 179) (Finite 1) (Finite (- 179)) (Finite (- 1))
     ''loc'' (Finite 1) (Scorer 0) (CompositeScorer 0) (SearcherOptions 0) True 4 [])) =
   [Searcher 0]"
    by simp
  from second have b: "fst (boxSearcher ?C2
     (Reader 0) (Finite 179) (Finite 1) (Finite (- 179)) (Finite (- 1))
     ''loc'' (Finite 1) (Scorer 0) (CompositeScorer 0) (SearcherOptions 0) True 4 []) =
   Inl (Error ''no disjunction'') \<and>
   closed (snd (boxSearcher ?C2
     (Reader 0) (Finite 179) (Finite 1) (Finite (- 179)) (Finite (- 1))
     ''loc'' (Finite 1) (Scorer 0) (CompositeScorer 0) (SearcherOptions 0) True 4 [])) =
   [Searcher 0, Searcher 1]"
    by (simp add: exampleCollaborators_def)
  from h a b show ?thesis by simp
qed

lemma failures_append: "failures (xs @ ys) = failures xs @ failures ys"
  by (induction xs) (simp_all split: option.splits)

lemma faithful_append:
  "faithful C t (xs @ ys) = (faithful C t xs \<and> faithful C (t @ xs) ys)"
  by (induction xs arbitrary: t) simp_all

text \<open>
  The error that \<open>boxSearcher\<close> returns is the error of the constructor call that failed,
  which is the only failed call of the run; when it returns a searcher no call failed.
  Every event it adds records what the collaborator returned.
\<close>

lemma boxSearcher_failures:
  assumes "boxSearcher C indexReader topLeftLon topLeftLat bottomRightLon bottomRightLat
             field boost scorer compScorer options checkBoundaries precisionStep t = (res, t')"
  shows "\<exists>new. t' = t @ new \<and> faithful C t new \<and>
           (\<forall>err. res = Inl err \<longrightarrow> failures new = [err]) \<and>
           (\<forall>s. res = Inr s \<longrightarrow> failures new = [])"
  using assms
  by (auto simp: boxSearcher_def call_defs split: if_splits sum.splits)

text \<open>
  C7. \<open>NewGeoPointDistanceSearcher\<close> returns the error \<open>err\<close> exactly when
  \<open>RectFromPointDistance\<close> fails with \<open>err\<close>, or \<open>boxSearcher\<close> (called on the rectangle)
  fails with \<open>err\<close>, or \<open>DocumentValueReader\<close> (called after \<open>boxSearcher\<close> succeeded, on the
  field) fails with \<open>err\<close>. When the three succeed it returns the filtering searcher on
  the searcher of \<open>boxSearcher\<close> with the predicate \<open>buildDistFilter\<close> of the value reader,
  the centre and the distance. In the calls it adds to the trace, no call other than
  \<open>Close\<close> follows a failed constructor call: nothing is retried. Down to the
  collaborators: every event added records what the collaborator returned, and the
  function returns \<open>err\<close> exactly when \<open>RectFromPointDistance\<close> returned \<open>err\<close> or \<open>err\<close> is
  the error of the one failed constructor call (of a bounding box, of the disjunction or
  of the value reader) of the run; it returns a searcher exactly when the rectangle was
  computed and no constructor call failed.
\<close>

theorem NewGeoPointDistanceSearcher_errors:
  assumes "NewGeoPointDistanceSearcher G C indexReader centerLon centerLat dist' field boost
             scorer compScorer options precisionStep t = (res, t')"
  shows "(res = Inl err \<longleftrightarrow>
            RectFromPointDistance G centerLon centerLat dist' = Inl err \<or>
            (\<exists>topLeftLon topLeftLat bottomRightLon bottomRightLat.
               RectFromPointDistance G centerLon centerLat dist' =
                 Inr (topLeftLon, topLeftLat, bottomRightLon, bottomRightLat) \<and>
               ((\<exists>t1. boxSearcher C indexReader topLeftLon topLeftLat bottomRightLon
                         bottomRightLat field boost scorer compScorer options False
                         precisionStep t = (Inl err, t1)) \<or>
                (\<exists>s t1. boxSearcher C indexReader topLeftLon topLeftLat bottomRightLon
                           bottomRightLat field boost scorer compScorer options False
                           precisionStep t = (Inr s, t1) \<and>
                         DocumentValueReader C t1 indexReader [field] = Inl err)))) \<and>
         (\<forall>topLeftLon topLeftLat bottomRightLon bottomRightLat s t1 r.
            RectFromPointDistance G centerLon centerLat dist' =
              Inr (topLeftLon, topLeftLat, bottomRightLon, bottomRightLat) \<and>
            boxSearcher C indexReader topLeftLon topLeftLat bottomRightLon bottomRightLat
              field boost scorer compScorer options False precisionStep t = (Inr s, t1) \<and>
            DocumentValueReader C t1 indexReader [field] = Inr r \<longrightarrow>
            res = Inr (FilteringSearcher s (buildDistFilter G r centerLon centerLat dist')) \<and>
            t' = t1 @ [CallDocumentValueReader indexReader [field] (Inr r)]) \<and>
         noRetry (drop (length t) t') \<and>
         take (length t) t' = t \<and>
         faithful C t (drop (length t) t') \<and>
         (res = Inl err \<longleftrightarrow>
            RectFromPointDistance G centerLon centerLat dist' = Inl err \<or>
            failures (drop (length t) t') = [err]) \<and>
         ((\<exists>s. res = Inr s) \<longleftrightarrow>
            (\<exists>rect. RectFromPointDistance G centerLon centerLat dist' = Inr rect) \<and>
            failures (drop (length t) t') = [])"
proof (cases "RectFromPointDistance G centerLon centerLat dist'")
  case (Inl e)
  with assms show ?thesis
    by (auto simp: NewGeoPointDistanceSearcher_def)
next
  case (Inr rect)
  obtain topLeftLon topLeftLat bottomRightLon bottomRightLat
    where rect: "rect = (topLeftLon, topLeftLat, bottomRightLon, bottomRightLat)"
    by (cases rect) auto
  obtain bres t1 where box:
    "boxSearcher C indexReader topLeftLon topLeftLat bottomRightLon bottomRightLat
       field boost scorer compScorer options False precisionStep t = (bres, t1)"
    by (cases "boxSearcher C indexReader topLeftLon topLeftLat bottomRightLon bottomRightLat
       field boost scorer compScorer options False precisionStep t") auto
  from boxSearcher_trace [OF box] obtain new where new: "t1 = t @ new" "noRetry new"
    "\<forall>s. bres = Inr s \<longrightarrow> \<not> list_ex failed new"
    by blast
  from boxSearcher_failures [OF box] new(1) have fl: "faithful C t new"
    "\<forall>err. bres = Inl err \<longrightarrow> failures new = [err]"
    "\<forall>s. bres = Inr s \<longrightarrow> failures new = []"
    by auto
  show ?thesis
  proof (cases bres)
    case (Inl e)
    with assms Inr rect box new fl show ?thesis
      by (auto simp: NewGeoPointDistanceSearcher_def)
  next
    case s: (Inr s)
    with new have nf: "\<not> list_ex failed new" by simp
    have nr: "noRetry (drop (length t) (t1 @ [ev]))" for ev
      using noRetry_append [OF nf, of "[ev]"] by (simp add: new(1))
    show ?thesis
    proof (cases "DocumentValueReader C t1 indexReader [field]")
      case (Inl e)
      with assms Inr rect box s nr fl new(1) show ?thesis
        by (auto simp: NewGeoPointDistanceSearcher_def callDocumentValueReader_def
              failures_append faithful_append)
    next
      case r: (Inr r)
      with assms Inr rect box s nr fl new(1) show ?thesis
        by (auto simp: NewGeoPointDistanceSearcher_def callDocumentValueReader_def
              failures_append faithful_append)
    qed
  qed
qed

text \<open>
  The run of the example, in which every collaborator succeeds: the result is the
  filtering searcher on the disjunction, and the trace has the four calls. And the run
  in which the constructor of the left box fails: its error is returned, after that one
  call.
\<close>

theorem NewGeoPointDistanceSearcher_errors_witness:
  "NewGeoPointDistanceSearcher exampleGeo exampleCollaborators (Reader 0)
     (Finite 179.9) (Finite 0) (Finite 50000) ''loc'' (Finite 1)
     (Scorer 0) (CompositeScorer 0) (SearcherOptions 0) 4 [] =
   (Inr (FilteringSearcher (Searcher 2)
           (buildDistFilter exampleGeo exampleReader (Finite 179.9) (Finite 0) (Finite 50000))),
    [CallNewGeoBoundingBoxSearcher
       (BBoxArgs (Reader 0) (Finite (- 180)) (Finite (- 1)) (Finite (- 179)) (Finite 1)
          ''loc'' (Finite 1) (Scorer 0) (CompositeScorer 0) (SearcherOptions 0) False 4)
       (Inr (Searcher 0)),
     CallNewGeoBoundingBoxSearcher
       (BBoxArgs (Reader 0) (Finite 179) (Finite (- 1)) (Finite 180) (Finite 1)
          ''loc'' (Finite 1) (Scorer 0) (CompositeScorer 0) (SearcherOptions 0) False 4)
       (Inr (Searcher 1)),
     CallNewDisjunctionSearcher
       (DisjArgs (Reader 0) [Searcher 0, Searcher 1] 0 CompositeSumScorer (SearcherOptions 0))
       (Inr (Searcher 2)),
     CallDocumentValueReader (Reader 0) [''loc''] (Inr exampleReader)]) \<and>
   noRetry
    [CallNewGeoBoundingBoxSearcher
       (BBoxArgs (Reader 0) (Finite (- 180)) (Finite (- 1)) (Finite (- 179)) (Finite 1)
          ''loc'' (Finite 1) (Scorer 0) (CompositeScorer 0) (SearcherOptions 0) False 4)
       (Inr (Searcher 0)),
     CallNewGeoBoundingBoxSearcher
       (BBoxArgs (Reader 0) (Finite 179) (Finite (- 1)) (Finite 180) (Finite 1)
          ''loc'' (Finite 1) (Scorer 0) (CompositeScorer 0) (SearcherOptions 0) False 4)
       (Inr (Searcher 1)),
     CallNewDisjunctionSearcher
       (DisjArgs (Reader 0) [Searcher 0, Searcher 1] 0 CompositeSumScorer (SearcherOptions 0))
       (Inr (Searcher 2)),
     CallDocumentValueReader (Reader 0) [''loc''] (Inr exampleReader)] \<and>
   \<not> (\<exists>err. fst (NewGeoPointDistanceSearcher exampleGeo exampleCollaborators (Reader 0)
     (Finite 179.9) (Finite 0) (Finite 50000) ''loc'' (Finite 1)
     (Scorer 0) (CompositeScorer 0) (SearcherOptions 0) 4 []) = Inl err) \<and>
   NewGeoPointDistanceSearcher exampleGeo
     (exampleCollaborators\<lparr>NewGeoBoundingBoxSearcher := \<lambda>t a. Inl (Error ''no left box'')\<rparr>)
     (Reader 0) (Finite 179.9) (Finite 0) (Finite 50000) ''loc'' (Finite 1)
     (Scorer 0) (CompositeScorer 0) (SearcherOptions 0) 4 [] =
   (Inl (Error ''no left box''),
    [CallNewGeoBoundingBoxSearcher
       (BBoxArgs (Reader 0) (Finite (- 180)) (Finite (- 1)) (Finite (- 179)) (Finite 1)
          ''loc'' (Finite 1) (Scorer 0) (CompositeScorer 0) (SearcherOptions 0) False 4)
       (Inl (Error ''no left box''))]) \<and>
   failures
    [CallNewGeoBoundingBoxSearcher
       (BBoxArgs (Reader 0) (Finite (- 180)) (Finite (- 1)) (Finite (- 179)) (Finite 1)
          ''loc'' (Finite 1) (Scorer 0) (CompositeScorer 0) (SearcherOptions 0) False 4)
       (Inl (Error ''no left box''))] = [Error ''no left box'']"
proof -
  have run': "NewGeoPointDistanceSearcher exampleGeo
     (exampleCollaborators\<lparr>NewGeoBoundingBoxSearcher := \<lambda>t a. Inl (Error ''no left box'')\<rparr>)
     (Reader 0) (Finite 179.9) (Finite 0) (Finite 50000) ''loc'' (Finite 1)
     (Scorer 0) (CompositeScorer 0) (SearcherOptions 0) 4 [] =
   (Inl (Error ''no left box''),
    [CallNewGeoBoundingBoxSearcher
       (BBoxArgs (Reader 0) (Finite (- 180)) (Finite (- 1)) (Finite (- 179)) (Finite 1)
          ''loc'' (Finite 1) (Scorer 0) (CompositeScorer 0) (SearcherOptions 0) False 4)
       (Inl (Error ''no left box''))])"
    by (simp add: NewGeoPointDistanceSearcher_def boxSearcher_def call_defs
          exampleGeo_def exampleCollaborators_def)
  have rect: "RectFromPointDistance exampleGeo (Finite 179.9) (Finite 0) (Finite 50000) \<noteq>
              Inl (Error ''no left box'')"
    by (simp add: exampleGeo_def)
  from NewGeoPointDistanceSearcher_errors [OF run', where err = "Error ''no left box''"] rect
  have fail: "failures
    [CallNewGeoBoundingBoxSearcher
       (BBoxArgs (Reader 0) (Finite (- 180)) (Finite (- 1)) (Finite (- 179)) (Finite 1)
          ''loc'' (Finite 1) (Scorer 0) (CompositeScorer 0) (SearcherOptions 0) False 4)
       (Inl (Error ''no left box''))] = [Error ''no left box'']"
    by simp
  have run: "NewGeoPointDistanceSearcher exampleGeo exampleCollaborators (Reader 0)
     (Finite 179.9) (Finite 0) (Finite 50000) ''loc'' (Finite 1)
     (Scorer 0) (CompositeScorer 0) (SearcherOptions 0) 4 [] =
   (Inr (FilteringSearcher (Searcher 2)
           (buildDistFilter exampleGeo exampleReader (Finite 179.9) (Finite 0) (Finite 50000))),
    [CallNewGeoBoundingBoxSearcher
       (BBoxArgs (Reader 0) (Finite (- 180)) (Finite (- 1)) (Finite (- 179)) (Finite 1)
          ''loc'' (Finite 1) (Scorer 0) (CompositeScorer 0) (SearcherOptions 0) False 4)
       (Inr (Searcher 0)),
     CallNewGeoBoundingBoxSearcher
       (BBoxArgs (Reader 0) (Finite 179) (Finite (- 1)) (Finite 180) (Finite 1)
          ''loc'' (Finite 1) (Scorer 0) (CompositeScorer 0) (SearcherOptions 0) False 4)
       (Inr (Searcher 1)),
     CallNewDisjunctionSearcher
       (DisjArgs (Reader 0) [Searcher 0, Searcher 1] 0 CompositeSumScorer (SearcherOptions 0))
       (Inr (Searcher 2)),
     CallDocumentValueReader (Reader 0) [''loc''] (Inr exampleReader)])"
    by (simp add: NewGeoPointDistanceSearcher_def boxSearcher_def call_defs
          exampleGeo_def exampleCollaborators_def)
  from NewGeoPointDistanceSearcher_errors [OF run, THEN conjunct2, THEN conjunct2, THEN conjunct1]
  have nr: "noRetry
    [CallNewGeoBoundingBoxSearcher
       (BBoxArgs (Reader 0) (Finite (- 180)) (Finite (- 1)) (Finite (- 179)) (Finite 1)
          ''loc'' (Finite 1) (Scorer 0) (CompositeScorer 0) (SearcherOptions 0) False 4)
       (Inr (Searcher 0)),
     CallNewGeoBoundingBoxSearcher
       (BBoxArgs (Reader 0) (Finite 179) (Finite (- 1)) (Finite 180) (Finite 1)
          ''loc'' (Finite 1) (Scorer 0) (CompositeScorer 0) (SearcherOptions 0) False 4)
       (Inr (Searcher 1)),
     CallNewDisjunctionSearcher
       (DisjArgs (Reader 0) [Searcher 0, Searcher 1] 0 CompositeSumScorer (SearcherOptions 0))
       (Inr (Searcher 2)),
     CallDocumentValueReader (Reader 0) [''loc''] (Inr exampleReader)]"
    by simp
  have ok: "\<not> (\<exists>err. fst (NewGeoPointDistanceSearcher exampleGeo exampleCollaborators (Reader 0)
     (Finite 179.9) (Finite 0) (Finite 50000) ''loc'' (Finite 1)
     (Scorer 0) (CompositeScorer 0) (SearcherOptions 0) 4 []) = Inl err)"
    by (simp add: run)
  from run nr ok run' fail show ?thesis
    by (intro conjI)
qed

text \<open>
  C9. Every bounding-box constructor call that \<open>NewGeoPointDistanceSearcher\<close> adds to the
  trace has \<open>checkBoundaries\<close> false, and a searcher that it returns is a filtering
  searcher whose predicate is \<open>buildDistFilter\<close> for the centre and the distance: the
  boxes never check their boundaries, the predicate decides.
\<close>

theorem NewGeoPointDistanceSearcher_checkBoundaries:
  assumes "NewGeoPointDistanceSearcher G C indexReader centerLon centerLat dist' field boost
             scorer compScorer options precisionStep t = (res, t')"
  shows "take (length t) t' = t \<and>
         (\<forall>a \<in> set (bboxCalls (drop (length t) t')). \<not> bbCheckBoundaries a) \<and>
         (\<forall>s. res = Inr s \<longrightarrow>
            (\<exists>box r. s = FilteringSearcher box
                            (buildDistFilter G r centerLon centerLat dist')))"
proof (cases "RectFromPointDistance G centerLon centerLat dist'")
  case (Inl e)
  with assms show ?thesis
    by (auto simp: NewGeoPointDistanceSearcher_def)
next
  case (Inr rect)
  obtain topLeftLon topLeftLat bottomRightLon bottomRightLat
    where rect: "rect = (topLeftLon, topLeftLat, bottomRightLon, bottomRightLat)"
    by (cases rect) auto
  obtain bres t1 where box:
    "boxSearcher C indexReader topLeftLon topLeftLat bottomRightLon bottomRightLat
       field boost scorer compScorer options False precisionStep t = (bres, t1)"
    by (cases "boxSearcher C indexReader topLeftLon topLeftLat bottomRightLon bottomRightLat
       field boost scorer compScorer options False precisionStep t") auto
  from boxSearcher_trace [OF box] obtain new where new: "t1 = t @ new"
    "\<forall>a \<in> set (bboxCalls new). bbCheckBoundaries a = False"
    by blast
  from assms Inr rect box new show ?thesis
    by (auto simp: NewGeoPointDistanceSearcher_def callDocumentValueReader_def bboxCalls_append
          split: sum.splits)
qed

theorem NewGeoPointDistanceSearcher_checkBoundaries_witness:
  "bboxCalls (snd (NewGeoPointDistanceSearcher exampleGeo exampleCollaborators (Reader 0)
     (Finite 179.9) (Finite 0) (Finite 50000) ''loc'' (Finite 1)
     (Scorer 0) (CompositeScorer 0) (SearcherOptions 0) 4 [])) =
   [BBoxArgs (Reader 0) (Finite (- 180)) (Finite (- 1)) (Finite (- 179)) (Finite 1)
      ''loc'' (Finite 1) (Scorer 0) (CompositeScorer 0) (SearcherOptions 0) False 4,
    BBoxArgs (Reader 0) (Finite 179) (Finite (- 1)) (Finite 180) (Finite 1)
      ''loc'' (Finite 1) (Scorer 0) (CompositeScorer 0) (SearcherOptions 0) False 4] \<and>
   map bbCheckBoundaries
     (bboxCalls (snd (NewGeoPointDistanceSearcher exampleGeo exampleCollaborators
       (Reader 0) (Finite 179.9) (Finite 0) (Finite 50000) ''loc'' (Finite 1)
       (Scorer 0) (CompositeScorer 0) (SearcherOptions 0) 4 []))) = [False, False]"
proof -
  have calls: "bboxCalls (snd (NewGeoPointDistanceSearcher exampleGeo exampleCollaborators (Reader 0)
     (Finite 179.9) (Finite 0) (Finite 50000) ''loc'' (Finite 1)
     (Scorer 0) (CompositeScorer 0) (SearcherOptions 0) 4 [])) =
   [BBoxArgs (Reader 0) (Finite (- 180)) (Finite (- 1)) (Finite (- 179)) (Finite 1)
      ''loc'' (Finite 1) (Scorer 0) (CompositeScorer 0) (SearcherOptions 0) False 4,
    BBoxArgs (Reader 0) (Finite 179) (Finite (- 1)) (Finite 180) (Finite 1)
      ''loc'' (Finite 1) (Scorer 0) (CompositeScorer 0) (SearcherOptions 0) False 4]"
    by (simp add: NewGeoPointDistanceSearcher_def boxSearcher_def call_defs
          exampleGeo_def exampleCollaborators_def)
  from NewGeoPointDistanceSearcher_checkBoundaries
         [OF surjective_pairing, where G = exampleGeo and C = exampleCollaborators and t = "[]"
            and indexReader = "Reader 0" and centerLon = "Finite 179.9" and centerLat = "Finite 0"
            and dist' = "Finite 50000" and field = "''loc''" and boost = "Finite 1"
            and scorer = "Scorer 0" and compScorer = "CompositeScorer 0"
            and options = "SearcherOptions 0" and precisionStep = 4]
  have "\<forall>a \<in> set (bboxCalls (snd (NewGeoPointDistanceSearcher exampleGeo exampleCollaborators
       (Reader 0) (Finite 179.9) (Finite 0) (Finite 50000) ''loc'' (Finite 1)
       (Scorer 0) (CompositeScorer 0) (SearcherOptions 0) 4 []))). \<not> bbCheckBoundaries a"
    by simp
  with calls show ?thesis by simp
qed

text \<open>
  C5. A run in which the box searcher is built (here the disjunction of the two boxes of
  the example) and \<open>DocumentValueReader\<close> then fails: \<open>NewGeoPointDistanceSearcher\<close>
  returns the error, and the trace ends with the failed call. \<open>Close\<close> is called on none
  of the three searchers built.
\<close>

theorem NewGeoPointDistanceSearcher_no_close:
  "NewGeoPointDistanceSearcher exampleGeo
     (exampleCollaborators\<lparr>DocumentValueReader := \<lambda>t r fs. Inl (Error ''no doc values'')\<rparr>)
     (Reader 0) (Finite 179.9) (Finite 0) (Finite 50000) ''loc'' (Finite 1)
     (Scorer 0) (CompositeScorer 0) (SearcherOptions 0) 4 [] =
   (Inl (Error ''no doc values''),
    [CallNewGeoBoundingBoxSearcher
       (BBoxArgs (Reader 0) (Finite (- 180)) (Finite (- 1)) (Finite (- 179)) (Finite 1)
          ''loc'' (Finite 1) (Scorer 0) (CompositeScorer 0) (SearcherOptions 0) False 4)
       (Inr (Searcher 0)),
     CallNewGeoBoundingBoxSearcher
       (BBoxArgs (Reader 0) (Finite 179) (Finite (- 1)) (Finite 180) (Finite 1)
          ''loc'' (Finite 1) (Scorer 0) (CompositeScorer 0) (SearcherOptions 0) False 4)
       (Inr (Searcher 1)),
     CallNewDisjunctionSearcher
       (DisjArgs (Reader 0) [Searcher 0, Searcher 1] 0 CompositeSumScorer (SearcherOptions 0))
       (Inr (Searcher 2)),
     CallDocumentValueReader (Reader 0) [''loc''] (Inl (Error ''no doc values''))]) \<and>
   closed (snd (NewGeoPointDistanceSearcher exampleGeo
     (exampleCollaborators\<lparr>DocumentValueReader := \<lambda>t r fs. Inl (Error ''no doc values'')\<rparr>)
     (Reader 0) (Finite 179.9) (Finite 0) (Finite 50000) ''loc'' (Finite 1)
     (Scorer 0) (CompositeScorer 0) (SearcherOptions 0) 4 [])) = []"
  by (simp add: NewGeoPointDistanceSearcher_def boxSearcher_def call_defs
        exampleGeo_def exampleCollaborators_def)

end
